theory Spec2Isabelle
  imports Complex_Main "HOL-Library.Word" "HOL-Library.AList"
begin

section \<open>Python values used by \<open>generators/pdf.py\<close>\<close>

text \<open>
  Python floats are idealised as real numbers: \<open>+\<close>, \<open>-\<close>, \<open>*\<close>, \<open>/\<close>, \<open>hypot\<close>,
  \<open>atan2\<close>, \<open>cos\<close> and \<open>sin\<close> are the exact operations, without rounding, infinities
  or NaN. A Python \<open>str\<close> is a sequence of Unicode code points (numbers below
  \<open>0x110000\<close>, lone surrogates included), \<open>len\<close> counts code points. A Python
  \<open>bytes\<close> object is a list of 8-bit words.
\<close>

type_synonym byte = "8 word"
type_synonym bytes = "byte list"
type_synonym str = "nat list"

datatype exn = ValueError | RuntimeError | UnicodeEncodeError | OSError | ZeroDivisionError

subsection \<open>Library functions of \<open>math\<close>\<close>

definition hypot :: "real \<Rightarrow> real \<Rightarrow> real" where
  "hypot x y = sqrt (x\<^sup>2 + y\<^sup>2)"

text \<open>\<open>math.atan2(y, x)\<close>: the angle of the point \<open>(x, y)\<close>, in \<open>(-pi, pi]\<close>.\<close>

definition atan2 :: "real \<Rightarrow> real \<Rightarrow> real" where
  "atan2 y x =
     (if 0 < x then arctan (y / x)
      else if x < 0 \<and> 0 \<le> y then arctan (y / x) + pi
      else if x < 0 then arctan (y / x) - pi
      else if 0 < y then pi / 2
      else if y < 0 then - (pi / 2)
      else 0)"

section \<open>Constants\<close>

definition CHAR_ASPECT :: int where
  "CHAR_ASPECT = 2"

definition ANGLE_THRESHOLD_RAD :: real where
  "ANGLE_THRESHOLD_RAD = 0.01"

definition TEXT_RENDER_MODE_INVISIBLE :: int where
  "TEXT_RENDER_MODE_INVISIBLE = 3"

definition PDF_POINTS_PER_INCH :: real where
  "PDF_POINTS_PER_INCH = 72.0"

definition HORIZONTAL_SCALE_FACTOR :: real where
  "HORIZONTAL_SCALE_FACTOR = 100.0"

section \<open>Geometry\<close>

text \<open>The slice \<open>xs[0::2]\<close>; \<open>xs[1::2]\<close> is \<open>stride2 (drop 1 xs)\<close>.\<close>

fun stride2 :: "'a list \<Rightarrow> 'a list" where
  "stride2 [] = []"
| "stride2 [x] = [x]"
| "stride2 (x # y # xs) = x # stride2 xs"

definition pt_from_pixel :: "real list \<Rightarrow> real \<times> real \<Rightarrow> real \<Rightarrow> real list" where
  "pt_from_pixel bbox scale height =
     (let point_pairs =
            map (\<lambda>(x, y). (x * fst scale, (height - y) * snd scale))
              (zip (stride2 bbox) (stride2 (drop 1 bbox)))
      in concat (map (\<lambda>pt. [fst pt, snd pt]) point_pairs))"

text \<open>The unpacking \<open>x1, y1, x2, y2 = bbox\<close> raises ValueError unless there are four elements.\<close>

fun bbox_to_poly :: "real list \<Rightarrow> exn + real list list" where
  "bbox_to_poly [x1, y1, x2, y2] = Inr [[x1, y1], [x2, y1], [x2, y2], [x1, y2]]"
| "bbox_to_poly _ = Inl ValueError"

definition poly_to_quad :: "real list list \<Rightarrow> real list" where
  "poly_to_quad poly = concat poly"

text \<open>
  The inverse mapping of the coordinate round-trip property: a point coordinate pair
  \<open>(x, y)\<close> goes back to pixels as \<open>(x / scale_x, height - y / scale_y)\<close>, applied to
  each corner of a flattened quad.
\<close>

definition pixel_from_pt :: "real list \<Rightarrow> real \<times> real \<Rightarrow> real \<Rightarrow> real list" where
  "pixel_from_pt quad scale height =
     concat (map (\<lambda>(x, y). [x / fst scale, height - y / snd scale])
       (zip (stride2 quad) (stride2 (drop 1 quad))))"

section \<open>Text encoding\<close>

text \<open>
  \<open>str.encode("utf-16be")\<close> with the default strict error handler: a code point of the
  basic plane is one 16-bit unit, a supplementary code point is a surrogate pair, and
  a lone surrogate (\<open>0xD800\<close> to \<open>0xDFFF\<close>) raises UnicodeEncodeError. Numbers from
  \<open>0x110000\<close> on are no code points of a \<open>str\<close>; the model refuses them as well.
\<close>

definition utf16_code_units :: "nat \<Rightarrow> exn + nat list" where
  "utf16_code_units c =
     (if c < 0xD800 then Inr [c]
      else if c < 0xE000 then Inl UnicodeEncodeError
      else if c < 0x10000 then Inr [c]
      else if c < 0x110000 then
        Inr [0xD800 + (c - 0x10000) div 0x400, 0xDC00 + (c - 0x10000) mod 0x400]
      else Inl UnicodeEncodeError)"

definition big_endian16 :: "nat \<Rightarrow> bytes" where
  "big_endian16 u = [of_nat (u div 256), of_nat (u mod 256)]"

fun encode_utf16be :: "str \<Rightarrow> exn + bytes" where
  "encode_utf16be [] = Inr []"
| "encode_utf16be (c # cs) =
     (case utf16_code_units c of
        Inl e \<Rightarrow> Inl e
      | Inr us \<Rightarrow>
          (case encode_utf16be cs of
             Inl e \<Rightarrow> Inl e
           | Inr bs \<Rightarrow> Inr (concat (map big_endian16 us) @ bs)))"

text \<open>
  \<open>bytes.decode("utf-16be")\<close>, strict: the reading of a \<open>TJ\<close> operand as text. The bytes
  are taken two at a time as big-endian 16-bit units; a high surrogate must be followed
  by a low surrogate, and a low surrogate may not stand alone.
\<close>

fun code_units_of_bytes :: "bytes \<Rightarrow> nat list option" where
  "code_units_of_bytes [] = Some []"
| "code_units_of_bytes [b] = None"
| "code_units_of_bytes (hi # lo # bs) =
     map_option ((#) (unat hi * 256 + unat lo)) (code_units_of_bytes bs)"

fun code_points_of_units :: "nat list \<Rightarrow> str option" where
  "code_points_of_units [] = Some []"
| "code_points_of_units (u # us) =
     (if u < 0xD800 \<or> 0xE000 \<le> u then map_option ((#) u) (code_points_of_units us)
      else if u < 0xDC00 then
        (case us of
           [] \<Rightarrow> None
         | l # us' \<Rightarrow>
             if 0xDC00 \<le> l \<and> l < 0xE000
             then map_option ((#) (0x10000 + (u - 0xD800) * 0x400 + (l - 0xDC00)))
                    (code_points_of_units us')
             else None)
      else None)"

definition decode_utf16be :: "bytes \<Rightarrow> str option" where
  "decode_utf16be bs =
     (case code_units_of_bytes bs of None \<Rightarrow> None | Some us \<Rightarrow> code_points_of_units us)"

section \<open>Content stream builder\<close>

text \<open>
  Objects of the PDF library: numbers, names, byte strings, arrays, dictionaries,
  streams, and references to the indirect objects of a document.
\<close>

datatype object =
    Float real
  | Integer int
  | Name string
  | String bytes
  | Array "object list"
  | Dictionary "(string \<times> object) list"
  | Stream bytes
  | Ref nat

datatype operator = Operator string

datatype instruction = ContentStreamInstruction "object list" operator

text \<open>
  The builder's state is its \<open>_instructions\<close> list; every method appends one instruction
  and returns the builder.
\<close>

type_synonym ContentStreamBuilder = "instruction list"

definition cs_init :: ContentStreamBuilder where
  "cs_init = []"

definition cs_q :: "ContentStreamBuilder \<Rightarrow> ContentStreamBuilder" where
  "cs_q cs = cs @ [ContentStreamInstruction [] (Operator ''q'')]"

definition cs_Q :: "ContentStreamBuilder \<Rightarrow> ContentStreamBuilder" where
  "cs_Q cs = cs @ [ContentStreamInstruction [] (Operator ''Q'')]"

definition cs_cm ::
  "ContentStreamBuilder \<Rightarrow> real \<Rightarrow> real \<Rightarrow> real \<Rightarrow> real \<Rightarrow> real \<Rightarrow> real \<Rightarrow> ContentStreamBuilder"
where
  "cs_cm cs a b c d e f =
     cs @ [ContentStreamInstruction
             [Float a, Float b, Float c, Float d, Float e, Float f] (Operator ''cm'')]"

definition cs_BT :: "ContentStreamBuilder \<Rightarrow> ContentStreamBuilder" where
  "cs_BT cs = cs @ [ContentStreamInstruction [] (Operator ''BT'')]"

definition cs_ET :: "ContentStreamBuilder \<Rightarrow> ContentStreamBuilder" where
  "cs_ET cs = cs @ [ContentStreamInstruction [] (Operator ''ET'')]"

definition cs_BDC :: "ContentStreamBuilder \<Rightarrow> object \<Rightarrow> nat \<Rightarrow> ContentStreamBuilder" where
  "cs_BDC cs mctype mcid =
     cs @ [ContentStreamInstruction [mctype, Dictionary [(''/MCID'', Integer (int mcid))]]
             (Operator ''BDC'')]"

definition cs_EMC :: "ContentStreamBuilder \<Rightarrow> ContentStreamBuilder" where
  "cs_EMC cs = cs @ [ContentStreamInstruction [] (Operator ''EMC'')]"

definition cs_Tf :: "ContentStreamBuilder \<Rightarrow> object \<Rightarrow> real \<Rightarrow> ContentStreamBuilder" where
  "cs_Tf cs font size' = cs @ [ContentStreamInstruction [font, Float size'] (Operator ''Tf'')]"

definition cs_Tm ::
  "ContentStreamBuilder \<Rightarrow> real \<Rightarrow> real \<Rightarrow> real \<Rightarrow> real \<Rightarrow> real \<Rightarrow> real \<Rightarrow> ContentStreamBuilder"
where
  "cs_Tm cs a b c d e f =
     cs @ [ContentStreamInstruction
             [Float a, Float b, Float c, Float d, Float e, Float f] (Operator ''Tm'')]"

definition cs_Tr :: "ContentStreamBuilder \<Rightarrow> int \<Rightarrow> ContentStreamBuilder" where
  "cs_Tr cs mode = cs @ [ContentStreamInstruction [Integer mode] (Operator ''Tr'')]"

definition cs_Tz :: "ContentStreamBuilder \<Rightarrow> real \<Rightarrow> ContentStreamBuilder" where
  "cs_Tz cs scale = cs @ [ContentStreamInstruction [Float scale] (Operator ''Tz'')]"

text \<open>
  \<open>TJ\<close> encodes its argument before it appends: when the encoding raises, the builder
  is as it was.
\<close>

definition cs_TJ :: "ContentStreamBuilder \<Rightarrow> str \<Rightarrow> exn + ContentStreamBuilder" where
  "cs_TJ cs text =
     (case encode_utf16be text of
        Inl e \<Rightarrow> Inl e
      | Inr bs \<Rightarrow> Inr (cs @ [ContentStreamInstruction [Array [String bs]] (Operator ''TJ'')]))"

definition cs_s :: "ContentStreamBuilder \<Rightarrow> ContentStreamBuilder" where
  "cs_s cs = cs @ [ContentStreamInstruction [] (Operator ''s'')]"

definition cs_re ::
  "ContentStreamBuilder \<Rightarrow> object \<Rightarrow> object \<Rightarrow> object \<Rightarrow> object \<Rightarrow> ContentStreamBuilder"
where
  "cs_re cs x y w h = cs @ [ContentStreamInstruction [x, y, w, h] (Operator ''re'')]"

definition cs_RG :: "ContentStreamBuilder \<Rightarrow> int \<Rightarrow> int \<Rightarrow> int \<Rightarrow> ContentStreamBuilder" where
  "cs_RG cs r g b =
     cs @ [ContentStreamInstruction [Integer r, Integer g, Integer b] (Operator ''RG'')]"

definition cs_build :: "ContentStreamBuilder \<Rightarrow> instruction list" where
  "cs_build cs = cs"

section \<open>Documents and the font resource\<close>

text \<open>
  A document owns its indirect objects, kept in creation order and referred to by
  position, and its pages. \<open>make_indirect\<close> and \<open>make_stream\<close> allocate one object each
  and return a reference to it; assigning to an attribute of a referenced dictionary
  replaces the value under that key.
\<close>

record page =
  page_size :: "real \<times> real"
  Resources :: "object option"
  Contents :: "object option"

record Pdf =
  objects :: "object list"
  pages :: "page list"

definition Pdf_new :: Pdf where
  "Pdf_new = \<lparr>objects = [], pages = []\<rparr>"

definition make_indirect :: "Pdf \<Rightarrow> object \<Rightarrow> Pdf \<times> object" where
  "make_indirect pdf obj = (pdf\<lparr>objects := objects pdf @ [obj]\<rparr>, Ref (length (objects pdf)))"

definition make_stream :: "Pdf \<Rightarrow> bytes \<Rightarrow> Pdf \<times> object" where
  "make_stream pdf data =
     (pdf\<lparr>objects := objects pdf @ [Stream data]\<rparr>, Ref (length (objects pdf)))"

fun set_attr :: "Pdf \<Rightarrow> object \<Rightarrow> string \<Rightarrow> object \<Rightarrow> Pdf" where
  "set_attr pdf (Ref n) key v =
     (case objects pdf ! n of
        Dictionary kvs \<Rightarrow> pdf\<lparr>objects := (objects pdf)[n := Dictionary (AList.update key v kvs)]\<rparr>
      | _ \<Rightarrow> pdf)"
| "set_attr pdf _ key v = pdf"

definition add_blank_page :: "Pdf \<Rightarrow> real \<times> real \<Rightarrow> Pdf" where
  "add_blank_page pdf size' =
     pdf\<lparr>pages := pages pdf @ [\<lparr>page_size = size', Resources = None, Contents = None\<rparr>]\<rparr>"

definition ascii :: "string \<Rightarrow> bytes" where
  "ascii cs = map (\<lambda>c. of_nat (of_char c)) cs"

definition bytes_repeat :: "bytes \<Rightarrow> nat \<Rightarrow> bytes" where
  "bytes_repeat bs n = concat (replicate n bs)"

definition to_unicode_cmap :: bytes where
  "to_unicode_cmap =
     concat (map (\<lambda>line. ascii line @ [0x0A])
       [''/CIDInit /ProcSet findresource begin'',
        ''12 dict begin'',
        ''begincmap'',
        ''/CIDSystemInfo'',
        ''<<'',
        ''  /Registry (Adobe)'',
        ''  /Ordering (UCS)'',
        ''  /Supplement 0'',
        ''>> def'',
        ''/CMapName /Adobe-Identify-UCS def'',
        ''/CMapType 2 def'',
        ''1 begincodespacerange'',
        ''<0000> <FFFF>'',
        ''endcodespacerange'',
        ''1 beginbfrange'',
        ''<0000> <FFFF> <0000>'',
        ''endbfrange'',
        ''endcmap'',
        ''CMapName currentdict /CMap defineresource pop'',
        ''end'',
        ''end''])"

text \<open>
  The glyph program \<open>GLYPHLESS_FONT\<close> is read from a packaged file; it is a parameter
  here.
\<close>

definition register_glyphlessfont :: "bytes \<Rightarrow> Pdf \<Rightarrow> Pdf \<times> object" where
  "register_glyphlessfont GLYPHLESS_FONT pdf =
     (let PLACEHOLDER = Name ''/Placeholder'';
          (pdf, basefont) =
            make_indirect pdf
              (Dictionary
                [(''/BaseFont'', Name ''/GlyphLessFont''),
                 (''/DescendantFonts'', Array [PLACEHOLDER]),
                 (''/Encoding'', Name ''/Identity-H''),
                 (''/Subtype'', Name ''/Type0''),
                 (''/ToUnicode'', PLACEHOLDER),
                 (''/Type'', Name ''/Font'')]);
          (pdf, cid_font_type2) =
            make_indirect pdf
              (Dictionary
                [(''/BaseFont'', Name ''/GlyphLessFont''),
                 (''/CIDToGIDMap'', PLACEHOLDER),
                 (''/CIDSystemInfo'',
                    Dictionary
                      [(''/Ordering'', String (ascii ''Identity'')),
                       (''/Registry'', String (ascii ''Adobe'')),
                       (''/Supplement'', Integer 0)]),
                 (''/FontDescriptor'', PLACEHOLDER),
                 (''/Subtype'', Name ''/CIDFontType2''),
                 (''/Type'', Name ''/Font''),
                 (''/DW'', Integer (1000 div CHAR_ASPECT))]);
          pdf = set_attr pdf basefont ''/DescendantFonts'' (Array [cid_font_type2]);
          (pdf, cid_to_gid_map) = make_stream pdf (bytes_repeat [0x00, 0x01] 65536);
          pdf = set_attr pdf cid_font_type2 ''/CIDToGIDMap'' cid_to_gid_map;
          (pdf, to_unicode) = make_stream pdf to_unicode_cmap;
          pdf = set_attr pdf basefont ''/ToUnicode'' to_unicode;
          (pdf, font_descriptor) =
            make_indirect pdf
              (Dictionary
                [(''/Ascent'', Integer 1000),
                 (''/CapHeight'', Integer 1000),
                 (''/Descent'', Integer (- 1)),
                 (''/Flags'', Integer 5),
                 (''/FontBBox'',
                    Array [Integer 0, Integer 0, Integer (1000 div CHAR_ASPECT), Integer 1000]),
                 (''/FontFile2'', PLACEHOLDER),
                 (''/FontName'', Name ''/GlyphLessFont''),
                 (''/ItalicAngle'', Integer 0),
                 (''/StemV'', Integer 80),
                 (''/Type'', Name ''/FontDescriptor'')]);
          (pdf, font_file2) = make_stream pdf GLYPHLESS_FONT;
          pdf = set_attr pdf font_descriptor ''/FontFile2'' font_file2;
          pdf = set_attr pdf cid_font_type2 ''/FontDescriptor'' font_descriptor
      in (pdf, basefont))"

section \<open>OCR results\<close>

text \<open>
  A word is a dict read with \<open>.get\<close>: each of its keys may be absent. \<open>PaddleResult\<close>
  keeps a list of blocks, each with its list of words.
\<close>

record word_data =
  w_bbox :: "real list option"
  w_text :: "str option"
  w_label :: "str option"
  w_score :: "real option"

record PaddleBlock =
  b_label :: str
  b_bbox :: "real list"
  b_content :: str
  ocr_words :: "word_data list"

record PaddleResult =
  blocks :: "PaddleBlock list"

definition dict_get :: "'a option \<Rightarrow> 'a \<Rightarrow> 'a" where
  "dict_get field dflt = (case field of None \<Rightarrow> dflt | Some v \<Rightarrow> v)"

section \<open>The text layer\<close>

text \<open>
  The body of the loop over a block's words, on the builder and the marked-content
  counter. Each \<open>continue\<close> returns the state as it is at that point; the handler
  \<open>except Exception: continue\<close> does the same for what the body has appended before
  the exception. With numbers, strings and lists typed as above, the only call of the
  body that can raise is the encoding in \<open>cs.TJ(text)\<close>. Logging is left out.
\<close>

definition word_body ::
  "real \<times> real \<Rightarrow> int \<Rightarrow> bool \<Rightarrow> ContentStreamBuilder \<times> nat \<Rightarrow> word_data
     \<Rightarrow> ContentStreamBuilder \<times> nat"
where
  "word_body scale height boxes st word_data =
     (let cs = fst st; mcid_counter = snd st;
          text = dict_get (w_text word_data) [];
          word_bbox = dict_get (w_bbox word_data) [];
          score = dict_get (w_score word_data) 0
      in
      if text = [] \<or> length word_bbox \<noteq> 4 then (cs, mcid_counter)
      else
        case bbox_to_poly word_bbox of
          Inl e \<Rightarrow> (cs, mcid_counter)
        | Inr poly \<Rightarrow>
           (let quad = poly_to_quad poly in
            if length quad \<noteq> 8 then (cs, mcid_counter)
            else
              let bbox = pt_from_pixel quad scale (real_of_int height);
                  angle = - atan2 (bbox ! 5 - bbox ! 7) (bbox ! 4 - bbox ! 6);
                  angle = (if \<bar>angle\<bar> < ANGLE_THRESHOLD_RAD then 0 else angle);
                  cos_a = cos angle; sin_a = sin angle;
                  font_size = hypot (bbox ! 0 - bbox ! 6) (bbox ! 1 - bbox ! 7);
                  space_width = 0;
                  box_width = hypot (bbox ! 4 - bbox ! 6) (bbox ! 5 - bbox ! 7) + space_width
              in
              if length text = 0 \<or> box_width \<le> 0 \<or> font_size \<le> 0 then (cs, mcid_counter)
              else
                let h_stretch =
                      HORIZONTAL_SCALE_FACTOR * box_width / real (length text) / font_size
                        * real_of_int CHAR_ASPECT;
                    cs = cs_BT cs;
                    cs = cs_BDC cs (Name ''/Span'') mcid_counter;
                    cs = cs_Tr cs TEXT_RENDER_MODE_INVISIBLE;
                    cs = cs_Tm cs cos_a (- sin_a) sin_a cos_a (bbox ! 6) (bbox ! 7);
                    cs = cs_Tf cs (Name ''/f-0-0'') font_size;
                    cs = cs_Tz cs h_stretch
                in
                case cs_TJ cs text of
                  Inl e \<Rightarrow> (cs, mcid_counter)
                | Inr cs \<Rightarrow>
                   (let cs = cs_EMC cs;
                        cs = cs_ET cs;
                        cs =
                          (if boxes then
                             (let cs = cs_q cs;
                                  cs = cs_cm cs cos_a (- sin_a) sin_a cos_a (bbox ! 6) (bbox ! 7);
                                  cs = cs_re cs (Integer 0) (Integer 0) (Float box_width)
                                         (Float font_size);
                                  cs = cs_RG cs 100 100 100;
                                  cs = cs_s cs
                              in cs_Q cs)
                           else cs)
                    in (cs, mcid_counter + 1))))"

definition block_body ::
  "real \<times> real \<Rightarrow> int \<Rightarrow> bool \<Rightarrow> ContentStreamBuilder \<times> nat \<Rightarrow> PaddleBlock
     \<Rightarrow> ContentStreamBuilder \<times> nat"
where
  "block_body scale height boxes st block =
     (if ocr_words block = [] then st
      else foldl (word_body scale height boxes) st (ocr_words block))"

text \<open>
  \<open>PaddleResult\<close> defines neither \<open>__bool__\<close> nor \<open>__len__\<close>, so \<open>not ocr_result\<close> holds
  for \<open>None\<close> only.
\<close>

definition generate_text_content_stream ::
  "PaddleResult option \<Rightarrow> real \<times> real \<Rightarrow> int \<Rightarrow> bool \<Rightarrow> instruction list"
where
  "generate_text_content_stream ocr_result scale height boxes =
     (let cs = cs_q cs_init in
      case ocr_result of
        None \<Rightarrow> cs_build (cs_Q cs)
      | Some r \<Rightarrow>
          if blocks r = [] then cs_build (cs_Q cs)
          else
            let st = foldl (block_body scale height boxes) (cs, 0) (blocks r)
            in cs_build (cs_Q (fst st)))"

section \<open>The page assembler\<close>

text \<open>
  What \<open>paddleocr_to_pdf\<close> reads from outside: the files by name (absent, not readable
  as an image, or an image with its declared resolution and pixel size), and the names
  the document can be saved under. \<open>unparse_content_stream\<close> belongs to the PDF library
  and is a parameter.
\<close>

record image =
  info_dpi :: "(real \<times> real) option"
  im_width :: int
  im_height :: int

datatype stored_file = Unreadable | ImageFile image

record environment =
  files :: "string \<Rightarrow> stored_file option"
  writable :: "string \<Rightarrow> bool"

text \<open>
  The body of the first \<open>try\<close> block: the image's size and the scale, or the exception
  it raises. Dividing by a resolution of zero raises ZeroDivisionError.
\<close>

definition open_image ::
  "environment \<Rightarrow> string \<Rightarrow> real \<Rightarrow> exn + int \<times> int \<times> real \<times> real"
where
  "open_image env image_filename image_scale =
     (case files env image_filename of
        None \<Rightarrow> Inl OSError
      | Some Unreadable \<Rightarrow> Inl OSError
      | Some (ImageFile im) \<Rightarrow>
          (let dpi = dict_get (info_dpi im) (PDF_POINTS_PER_INCH, PDF_POINTS_PER_INCH);
               width = im_width im;
               height = im_height im
           in if width \<le> 0 \<or> height \<le> 0 then Inl ValueError
              else if fst dpi = 0 \<or> snd dpi = 0 then Inl ZeroDivisionError
              else
                Inr (width, height,
                     PDF_POINTS_PER_INCH / fst dpi / image_scale,
                     PDF_POINTS_PER_INCH / snd dpi / image_scale)))"

text \<open>
  The result is the document as far as it has been allocated (\<open>None\<close> before \<open>Pdf.new()\<close>)
  and the returned path or the exception raised. The handler of the first \<open>try\<close> block
  raises ValueError for any exception, that of the second RuntimeError.
\<close>

definition paddleocr_to_pdf ::
  "environment \<Rightarrow> bytes \<Rightarrow> (instruction list \<Rightarrow> exn + bytes) \<Rightarrow> string \<Rightarrow> real
     \<Rightarrow> PaddleResult option \<Rightarrow> string \<Rightarrow> bool \<Rightarrow> Pdf option \<times> (exn + string)"
where
  "paddleocr_to_pdf env GLYPHLESS_FONT unparse_content_stream image_filename image_scale
       ocr_result output_pdf boxes =
     (if files env image_filename = None then (None, Inl ValueError)
      else if image_scale \<le> 0 then (None, Inl ValueError)
      else
        case open_image env image_filename image_scale of
          Inl e \<Rightarrow> (None, Inl ValueError)
        | Inr (width, height, scale) \<Rightarrow>
           (let pdf = Pdf_new;
                pdf = add_blank_page pdf
                        (real_of_int width * fst scale, real_of_int height * snd scale);
                (pdf, font) = register_glyphlessfont GLYPHLESS_FONT pdf;
                pdf = pdf\<lparr>pages := (pages pdf)
                        [0 := (pages pdf ! 0)
                           \<lparr>Resources :=
                              Some (Dictionary [(''/Font'', Dictionary [(''/f-0-0'', font)])])\<rparr>]\<rparr>;
                cs = generate_text_content_stream ocr_result scale height boxes
            in
            case unparse_content_stream cs of
              Inl e \<Rightarrow> (Some pdf, Inl RuntimeError)
            | Inr data \<Rightarrow>
               (let (pdf, contents) = make_stream pdf data;
                    pdf = pdf\<lparr>pages := (pages pdf)
                            [0 := (pages pdf ! 0)\<lparr>Contents := Some contents\<rparr>]\<rparr>
                in if writable env output_pdf then (Some pdf, Inr output_pdf)
                   else (Some pdf, Inl RuntimeError))))"

section \<open>Vocabulary of the properties\<close>

subsection \<open>Words and their geometry\<close>

definition word_text :: "word_data \<Rightarrow> str" where
  "word_text w = dict_get (w_text w) []"

definition word_bbox :: "word_data \<Rightarrow> real list" where
  "word_bbox w = dict_get (w_bbox w) []"

definition words_of :: "PaddleResult option \<Rightarrow> word_data list" where
  "words_of ocr_result =
     (case ocr_result of None \<Rightarrow> [] | Some r \<Rightarrow> concat (map ocr_words (blocks r)))"

text \<open>The quad of a word in points; a quad is read by its corners.\<close>

definition transformed_quad :: "real \<times> real \<Rightarrow> int \<Rightarrow> word_data \<Rightarrow> real list" where
  "transformed_quad scale height w =
     (case bbox_to_poly (word_bbox w) of
        Inl e \<Rightarrow> []
      | Inr poly \<Rightarrow> pt_from_pixel (poly_to_quad poly) scale (real_of_int height))"

definition distance :: "real \<times> real \<Rightarrow> real \<times> real \<Rightarrow> real" where
  "distance p r = sqrt ((fst p - fst r)\<^sup>2 + (snd p - snd r)\<^sup>2)"

definition top_left :: "real list \<Rightarrow> real \<times> real" where
  "top_left quad = (quad ! 0, quad ! 1)"

definition bottom_right :: "real list \<Rightarrow> real \<times> real" where
  "bottom_right quad = (quad ! 4, quad ! 5)"

definition bottom_left :: "real list \<Rightarrow> real \<times> real" where
  "bottom_left quad = (quad ! 6, quad ! 7)"

definition quad_angle :: "real list \<Rightarrow> real" where
  "quad_angle quad =
     - atan2 (snd (bottom_right quad) - snd (bottom_left quad))
         (fst (bottom_right quad) - fst (bottom_left quad))"

definition quad_font_size :: "real list \<Rightarrow> real" where
  "quad_font_size quad = distance (top_left quad) (bottom_left quad)"

definition quad_run_width :: "real list \<Rightarrow> real" where
  "quad_run_width quad = distance (bottom_right quad) (bottom_left quad)"

definition snapped_angle :: "real list \<Rightarrow> real" where
  "snapped_angle quad =
     (if \<bar>quad_angle quad\<bar> < ANGLE_THRESHOLD_RAD then 0 else quad_angle quad)"

definition stretch :: "real \<times> real \<Rightarrow> int \<Rightarrow> word_data \<Rightarrow> real" where
  "stretch scale height w =
     100 * quad_run_width (transformed_quad scale height w) / real (length (word_text w))
       / quad_font_size (transformed_quad scale height w) * real_of_int CHAR_ASPECT"

text \<open>
  The four checks of the loop body: a word passes them when its text is not empty, its
  bbox has four elements, and the font size and the run width of its quad are positive.
  A word completes its run when it passes them and its text can be encoded.
\<close>

definition passes_checks :: "real \<times> real \<Rightarrow> int \<Rightarrow> word_data \<Rightarrow> bool" where
  "passes_checks scale height w =
     (word_text w \<noteq> [] \<and> length (word_bbox w) = 4
      \<and> 0 < quad_font_size (transformed_quad scale height w)
      \<and> 0 < quad_run_width (transformed_quad scale height w))"

definition encodable :: "str \<Rightarrow> bool" where
  "encodable t = (case encode_utf16be t of Inl e \<Rightarrow> False | Inr bs \<Rightarrow> True)"

definition completes :: "real \<times> real \<Rightarrow> int \<Rightarrow> word_data \<Rightarrow> bool" where
  "completes scale height w = (passes_checks scale height w \<and> encodable (word_text w))"

subsection \<open>What one word appends\<close>

definition run_head :: "real \<times> real \<Rightarrow> int \<Rightarrow> nat \<Rightarrow> word_data \<Rightarrow> instruction list" where
  "run_head scale height mcid w =
     (let quad = transformed_quad scale height w; a = snapped_angle quad in
      [ContentStreamInstruction [] (Operator ''BT''),
       ContentStreamInstruction [Name ''/Span'', Dictionary [(''/MCID'', Integer (int mcid))]]
         (Operator ''BDC''),
       ContentStreamInstruction [Integer 3] (Operator ''Tr''),
       ContentStreamInstruction
         [Float (cos a), Float (- sin a), Float (sin a), Float (cos a),
          Float (fst (bottom_left quad)), Float (snd (bottom_left quad))] (Operator ''Tm''),
       ContentStreamInstruction [Name ''/f-0-0'', Float (quad_font_size quad)] (Operator ''Tf''),
       ContentStreamInstruction [Float (stretch scale height w)] (Operator ''Tz'')])"

definition run_tail :: "bytes \<Rightarrow> instruction list" where
  "run_tail bs =
     [ContentStreamInstruction [Array [String bs]] (Operator ''TJ''),
      ContentStreamInstruction [] (Operator ''EMC''),
      ContentStreamInstruction [] (Operator ''ET'')]"

definition debug_box :: "real \<times> real \<Rightarrow> int \<Rightarrow> word_data \<Rightarrow> instruction list" where
  "debug_box scale height w =
     (let quad = transformed_quad scale height w; a = snapped_angle quad in
      [ContentStreamInstruction [] (Operator ''q''),
       ContentStreamInstruction
         [Float (cos a), Float (- sin a), Float (sin a), Float (cos a),
          Float (fst (bottom_left quad)), Float (snd (bottom_left quad))] (Operator ''cm''),
       ContentStreamInstruction
         [Integer 0, Integer 0, Float (quad_run_width quad), Float (quad_font_size quad)]
         (Operator ''re''),
       ContentStreamInstruction [Integer 100, Integer 100, Integer 100] (Operator ''RG''),
       ContentStreamInstruction [] (Operator ''s''),
       ContentStreamInstruction [] (Operator ''Q'')])"

definition word_out ::
  "real \<times> real \<Rightarrow> int \<Rightarrow> bool \<Rightarrow> nat \<Rightarrow> word_data \<Rightarrow> instruction list"
where
  "word_out scale height boxes mcid w =
     (if passes_checks scale height w then
        (case encode_utf16be (word_text w) of
           Inl e \<Rightarrow> run_head scale height mcid w
         | Inr bs \<Rightarrow>
             run_head scale height mcid w @ run_tail bs
               @ (if boxes then debug_box scale height w else []))
      else [])"

fun stream_from ::
  "real \<times> real \<Rightarrow> int \<Rightarrow> bool \<Rightarrow> nat \<Rightarrow> word_data list \<Rightarrow> instruction list"
where
  "stream_from scale height boxes m [] = []"
| "stream_from scale height boxes m (w # ws) =
     word_out scale height boxes m w
       @ stream_from scale height boxes (if completes scale height w then m + 1 else m) ws"

subsection \<open>Reading a content stream\<close>

fun operator_name :: "instruction \<Rightarrow> string" where
  "operator_name (ContentStreamInstruction ops (Operator name)) = name"

fun operands :: "instruction \<Rightarrow> object list" where
  "operands (ContentStreamInstruction ops opr) = ops"

text \<open>The operand lists of the instructions with a given operator, in stream order.\<close>

definition operands_of :: "string \<Rightarrow> instruction list \<Rightarrow> object list list" where
  "operands_of name stream = map operands (filter (\<lambda>i. operator_name i = name) stream)"

text \<open>The byte strings shown by the \<open>TJ\<close> instructions of a stream, in stream order.\<close>

fun shown_strings :: "object \<Rightarrow> bytes list" where
  "shown_strings (String bs) = [bs]"
| "shown_strings (Array xs) = concat (map shown_strings xs)"
| "shown_strings _ = []"

definition TJ_strings :: "instruction list \<Rightarrow> bytes list" where
  "TJ_strings stream = concat (map shown_strings (concat (operands_of ''TJ'' stream)))"

text \<open>
  All strings decoded and concatenated in order; \<open>None\<close> when one of them is not
  UTF-16BE.
\<close>

definition decode_all :: "bytes list \<Rightarrow> str option" where
  "decode_all bss = map_option concat (those (map decode_utf16be bss))"

text \<open>
  Bracketing of a stream, read from its operator names: the number of open \<open>q\<close>, whether
  a text object is open, and the number of open marked-content sequences. \<open>Q\<close> needs an
  open \<open>q\<close>; \<open>BT\<close> needs no open text object; \<open>BDC\<close> needs an open text object; \<open>EMC\<close> needs
  an open sequence; \<open>ET\<close> needs an open text object with every sequence closed. At the
  end everything is closed.
\<close>

fun bracketed :: "nat \<Rightarrow> bool \<Rightarrow> nat \<Rightarrow> string list \<Rightarrow> bool" where
  "bracketed depth in_text marked [] = (depth = 0 \<and> \<not> in_text \<and> marked = 0)"
| "bracketed depth in_text marked (name # names) =
     (if name = ''q'' then bracketed (depth + 1) in_text marked names
      else if name = ''Q'' then 0 < depth \<and> bracketed (depth - 1) in_text marked names
      else if name = ''BT'' then \<not> in_text \<and> bracketed depth True marked names
      else if name = ''ET'' then in_text \<and> marked = 0 \<and> bracketed depth False marked names
      else if name = ''BDC'' then in_text \<and> bracketed depth in_text (marked + 1) names
      else if name = ''EMC'' then 0 < marked \<and> bracketed depth in_text (marked - 1) names
      else bracketed depth in_text marked names)"

definition well_bracketed :: "instruction list \<Rightarrow> bool" where
  "well_bracketed stream =
     (let names = map operator_name stream in
      names \<noteq> [] \<and> hd names = ''q'' \<and> last names = ''Q'' \<and> bracketed 0 False 0 names)"

subsection \<open>The identity map table\<close>

text \<open>
  A \<open>CIDToGIDMap\<close> stream gives the glyph index of CID \<open>c\<close> in its bytes \<open>2 * c\<close> and
  \<open>2 * c + 1\<close>, high-order byte first.
\<close>

definition glyph_index :: "bytes \<Rightarrow> nat \<Rightarrow> nat" where
  "glyph_index table c = unat (table ! (2 * c)) * 256 + unat (table ! (2 * c + 1))"

text \<open>
  The table of the font that \<open>register_glyphlessfont\<close> returns: the stream under
  \<open>CIDToGIDMap\<close> of the first descendant font.
\<close>

definition attr :: "Pdf \<Rightarrow> object \<Rightarrow> string \<Rightarrow> object option" where
  "attr pdf obj key =
     (case obj of
        Ref n \<Rightarrow>
          (if n < length (objects pdf) then
             (case objects pdf ! n of Dictionary kvs \<Rightarrow> map_of kvs key | _ \<Rightarrow> None)
           else None)
      | _ \<Rightarrow> None)"

definition stream_data :: "Pdf \<Rightarrow> object \<Rightarrow> bytes option" where
  "stream_data pdf obj =
     (case obj of
        Ref n \<Rightarrow>
          (if n < length (objects pdf) then
             (case objects pdf ! n of Stream data \<Rightarrow> Some data | _ \<Rightarrow> None)
           else None)
      | _ \<Rightarrow> None)"

definition CIDToGIDMap_table :: "Pdf \<times> object \<Rightarrow> bytes option" where
  "CIDToGIDMap_table res =
     (case attr (fst res) (snd res) ''/DescendantFonts'' of
        Some (Array (cid_font # rest)) \<Rightarrow>
          (case attr (fst res) cid_font ''/CIDToGIDMap'' of
             Some stream \<Rightarrow> stream_data (fst res) stream
           | None \<Rightarrow> None)
      | _ \<Rightarrow> None)"

subsection \<open>Results that differ in scores only\<close>

definition same_but_score_word :: "word_data \<Rightarrow> word_data \<Rightarrow> bool" where
  "same_but_score_word w w' =
     (w_bbox w = w_bbox w' \<and> w_text w = w_text w' \<and> w_label w = w_label w')"

definition same_but_score_block :: "PaddleBlock \<Rightarrow> PaddleBlock \<Rightarrow> bool" where
  "same_but_score_block b b' =
     (b_label b = b_label b' \<and> b_bbox b = b_bbox b' \<and> b_content b = b_content b'
      \<and> list_all2 same_but_score_word (ocr_words b) (ocr_words b'))"

definition same_but_score :: "PaddleResult option \<Rightarrow> PaddleResult option \<Rightarrow> bool" where
  "same_but_score ocr_result ocr_result' =
     rel_option (\<lambda>r r'. list_all2 same_but_score_block (blocks r) (blocks r'))
       ocr_result ocr_result'"

subsection \<open>Example inputs\<close>

text \<open>
  The word \<open>Hi\<close> with bbox \<open>[10, 10, 90, 30]\<close> and score 0.99, as in a 200 by 100 image of
  96 DPI read at scale 1 (so the scale is 3/4); a word whose text is the lone surrogate
  \<open>U+D800\<close>; a word with a three-element bbox.
\<close>

definition hi_word :: word_data where
  "hi_word =
     \<lparr>w_bbox = Some [10, 10, 90, 30], w_text = Some [0x48, 0x69], w_label = Some [],
      w_score = Some 0.99\<rparr>"

definition surrogate_word :: word_data where
  "surrogate_word =
     \<lparr>w_bbox = Some [10, 40, 90, 60], w_text = Some [0xD800], w_label = Some [],
      w_score = Some 0.5\<rparr>"

definition short_bbox_word :: word_data where
  "short_bbox_word =
     \<lparr>w_bbox = Some [10, 10, 90], w_text = Some [0x48, 0x69], w_label = Some [],
      w_score = Some 0.99\<rparr>"

definition one_block :: "word_data list \<Rightarrow> PaddleResult option" where
  "one_block ws =
     Some \<lparr>blocks = [\<lparr>b_label = [], b_bbox = [0, 0, 200, 100], b_content = [], ocr_words = ws\<rparr>]\<rparr>"

text \<open>
  The image of the end-to-end scenario, 200 by 100 pixels at 96 DPI, stored as
  \<open>page.png\<close>, in a file system where every name can be written.
\<close>

definition page_image :: image where
  "page_image = \<lparr>info_dpi = Some (96, 96), im_width = 200, im_height = 100\<rparr>"

definition page_env :: environment where
  "page_env = \<lparr>files = (\<lambda>name. if name = ''page.png'' then Some (ImageFile page_image) else None),
                writable = (\<lambda>name. True)\<rparr>"

section \<open>Theorems\<close>

lemma hypot_zero_left: "hypot 0 y = \<bar>y\<bar>"
  by (simp add: hypot_def)

lemma hypot_zero_right: "hypot x 0 = \<bar>x\<bar>"
  by (simp add: hypot_def)

lemma pt_from_pixel_quad:
  "pt_from_pixel [x0, y0, x1, y1, x2, y2, x3, y3] (sx, sy) h =
     [x0 * sx, (h - y0) * sy, x1 * sx, (h - y1) * sy,
      x2 * sx, (h - y2) * sy, x3 * sx, (h - y3) * sy]"
  by (simp add: pt_from_pixel_def)

subsection \<open>The loop body in closed form\<close>

lemmas cs_defs = cs_init_def cs_q_def cs_Q_def cs_cm_def cs_BT_def cs_ET_def cs_BDC_def
  cs_EMC_def cs_Tf_def cs_Tm_def cs_Tr_def cs_Tz_def cs_TJ_def cs_s_def cs_re_def cs_RG_def
  cs_build_def

lemmas const_defs = CHAR_ASPECT_def ANGLE_THRESHOLD_RAD_def TEXT_RENDER_MODE_INVISIBLE_def
  HORIZONTAL_SCALE_FACTOR_def

lemmas quad_defs = quad_angle_def quad_font_size_def quad_run_width_def top_left_def
  bottom_left_def bottom_right_def snapped_angle_def stretch_def

lemma length_four: "length xs = 4 \<Longrightarrow> \<exists>a b c d. xs = [a, b, c, d]"
  by (auto simp: length_Suc_conv numeral_eq_Suc)

lemma transformed_quad_four:
  assumes "word_bbox w = [x1, y1, x2, y2]"
  shows "transformed_quad (sx, sy) h w =
     [x1 * sx, (real_of_int h - y1) * sy, x2 * sx, (real_of_int h - y1) * sy,
      x2 * sx, (real_of_int h - y2) * sy, x1 * sx, (real_of_int h - y2) * sy]"
  using assms by (simp add: transformed_quad_def poly_to_quad_def pt_from_pixel_quad)

lemma word_body_eq:
  "word_body scale height boxes (cs, m) w =
     (cs @ word_out scale height boxes m w, if completes scale height w then m + 1 else m)"
proof (cases "word_text w \<noteq> [] \<and> length (word_bbox w) = 4")
  case False
  then show ?thesis
    by (auto simp: word_body_def word_out_def passes_checks_def completes_def word_text_def
          word_bbox_def)
next
  case True
  then obtain x1 y1 x2 y2 where b: "word_bbox w = [x1, y1, x2, y2]"
    using length_four by blast
  from True have t: "word_text w \<noteq> []" by simp
  obtain sx sy where s: "scale = (sx, sy)" by (cases scale)
  note q = transformed_quad_four [OF b, of sx sy height]
  have b': "dict_get (w_bbox w) [] = [x1, y1, x2, y2]"
    using b by (simp add: word_bbox_def)
  have t': "dict_get (w_text w) [] = word_text w"
    by (simp add: word_text_def)
  show ?thesis
    unfolding s word_body_def word_out_def passes_checks_def completes_def encodable_def
      run_head_def run_tail_def debug_box_def quad_defs q b b' t'
    using t
    by (simp add: Let_def poly_to_quad_def pt_from_pixel_quad cs_defs const_defs hypot_def
          distance_def split: sum.splits)
qed

lemma foldl_word_body:
  "foldl (word_body scale height boxes) (cs, m) ws =
     (cs @ stream_from scale height boxes m ws, m + length (filter (completes scale height) ws))"
  by (induction ws arbitrary: cs m) (simp_all add: word_body_eq)

lemma stream_from_append:
  "stream_from scale height boxes m (xs @ ys) =
     stream_from scale height boxes m xs
       @ stream_from scale height boxes (m + length (filter (completes scale height) xs)) ys"
  by (induction xs arbitrary: m) simp_all

lemma block_body_eq:
  "block_body scale height boxes (cs, m) block =
     (cs @ stream_from scale height boxes m (ocr_words block),
      m + length (filter (completes scale height) (ocr_words block)))"
  by (simp add: block_body_def foldl_word_body)

lemma foldl_block_body:
  "foldl (block_body scale height boxes) (cs, m) bs =
     (cs @ stream_from scale height boxes m (concat (map ocr_words bs)),
      m + length (filter (completes scale height) (concat (map ocr_words bs))))"
  by (induction bs arbitrary: cs m) (simp_all add: block_body_eq stream_from_append)

lemma generate_eq:
  "generate_text_content_stream ocr_result scale height boxes =
     ContentStreamInstruction [] (Operator ''q'')
       # stream_from scale height boxes 0 (words_of ocr_result)
       @ [ContentStreamInstruction [] (Operator ''Q'')]"
  by (cases ocr_result)
    (simp_all add: generate_text_content_stream_def words_of_def foldl_block_body
       cs_init_def cs_q_def cs_Q_def cs_build_def Let_def)

lemma operands_of_append [simp]:
  "operands_of name (xs @ ys) = operands_of name xs @ operands_of name ys"
  by (simp add: operands_of_def)

lemma operands_of_Cons:
  "operands_of name (i # xs) =
     (if operator_name i = name then operands i # operands_of name xs else operands_of name xs)"
  by (simp add: operands_of_def)

lemma operands_of_Nil [simp]: "operands_of name [] = []"
  by (simp add: operands_of_def)

lemmas word_out_defs = word_out_def run_head_def run_tail_def debug_box_def operands_of_Cons
  Let_def

subsection \<open>Example geometry\<close>

lemma distance_vertical: "distance (x, a) (x, b) = \<bar>a - b\<bar>"
  by (simp add: distance_def)

lemma distance_horizontal: "distance (a, y) (b, y) = \<bar>a - b\<bar>"
  by (simp add: distance_def)

lemma hi_quad:
  "transformed_quad (3 / 4, 3 / 4) 100 hi_word =
     [15 / 2, 135 / 2, 135 / 2, 135 / 2, 135 / 2, 105 / 2, 15 / 2, 105 / 2]"
  by (simp add: transformed_quad_def word_bbox_def dict_get_def hi_word_def poly_to_quad_def
        pt_from_pixel_quad)

lemma hi_text: "word_text hi_word = [0x48, 0x69]"
  by (simp add: word_text_def dict_get_def hi_word_def)

lemma hi_font_size: "quad_font_size (transformed_quad (3 / 4, 3 / 4) 100 hi_word) = 15"
  by (simp add: hi_quad quad_font_size_def top_left_def bottom_left_def distance_vertical)

lemma hi_run_width: "quad_run_width (transformed_quad (3 / 4, 3 / 4) 100 hi_word) = 60"
  by (simp add: hi_quad quad_run_width_def bottom_right_def bottom_left_def distance_horizontal)

lemma hi_angle: "quad_angle (transformed_quad (3 / 4, 3 / 4) 100 hi_word) = 0"
  by (simp add: hi_quad quad_angle_def bottom_right_def bottom_left_def atan2_def)

lemma hi_passes: "passes_checks (3 / 4, 3 / 4) 100 hi_word"
  by (simp add: passes_checks_def hi_text hi_font_size hi_run_width)
    (simp add: word_bbox_def dict_get_def hi_word_def)

lemma hi_encoded: "encode_utf16be [0x48, 0x69] = Inr [0x00, 0x48, 0x00, 0x69]"
  by (simp add: utf16_code_units_def big_endian16_def)

lemma hi_completes: "completes (3 / 4, 3 / 4) 100 hi_word"
  by (simp add: completes_def hi_passes encodable_def hi_text utf16_code_units_def)

lemma hi_origin:
  "bottom_left (transformed_quad (3 / 4, 3 / 4) 100 hi_word) = (15 / 2, 105 / 2)"
  by (simp add: hi_quad bottom_left_def)

lemma short_bbox_fails: "\<not> passes_checks (3 / 4, 3 / 4) 100 short_bbox_word"
  by (simp add: passes_checks_def word_bbox_def dict_get_def short_bbox_word_def)

lemma short_bbox_incomplete: "\<not> completes (3 / 4, 3 / 4) 100 short_bbox_word"
  by (simp add: completes_def short_bbox_fails)

lemma surrogate_quad:
  "transformed_quad (3 / 4, 3 / 4) 100 surrogate_word =
     [15 / 2, 45, 135 / 2, 45, 135 / 2, 30, 15 / 2, 30]"
  by (simp add: transformed_quad_def word_bbox_def dict_get_def surrogate_word_def
        poly_to_quad_def pt_from_pixel_quad)

lemma surrogate_text: "word_text surrogate_word = [0xD800]"
  by (simp add: word_text_def dict_get_def surrogate_word_def)

lemma surrogate_passes: "passes_checks (3 / 4, 3 / 4) 100 surrogate_word"
  by (simp add: passes_checks_def surrogate_text surrogate_quad quad_font_size_def
        quad_run_width_def top_left_def bottom_left_def bottom_right_def distance_vertical
        distance_horizontal)
    (simp add: word_bbox_def dict_get_def surrogate_word_def)

lemma surrogate_refused: "encode_utf16be [0xD800] = Inl UnicodeEncodeError"
  by (simp add: utf16_code_units_def)

lemma words_of_one_block: "words_of (one_block ws) = ws"
  by (simp add: words_of_def one_block_def)

subsection \<open>Operands of the text state instructions\<close>

lemma Tz_word_out:
  "operands_of ''Tz'' (word_out scale height boxes m w) =
     (if passes_checks scale height w then [[Float (stretch scale height w)]] else [])"
  by (simp add: word_out_defs split: sum.splits)

lemma Tz_stream_from:
  "operands_of ''Tz'' (stream_from scale height boxes m ws) =
     map (\<lambda>w. [Float (stretch scale height w)]) (filter (passes_checks scale height) ws)"
  by (induction ws arbitrary: m) (simp_all add: Tz_word_out)

lemma Tm_word_out:
  "operands_of ''Tm'' (word_out scale height boxes m w) =
     (if passes_checks scale height w then
        [[Float (cos (snapped_angle (transformed_quad scale height w))),
          Float (- sin (snapped_angle (transformed_quad scale height w))),
          Float (sin (snapped_angle (transformed_quad scale height w))),
          Float (cos (snapped_angle (transformed_quad scale height w))),
          Float (fst (bottom_left (transformed_quad scale height w))),
          Float (snd (bottom_left (transformed_quad scale height w)))]]
      else [])"
  by (simp add: word_out_defs split: sum.splits)

lemma Tm_stream_from:
  "operands_of ''Tm'' (stream_from scale height boxes m ws) =
     map (\<lambda>w.
         [Float (cos (snapped_angle (transformed_quad scale height w))),
          Float (- sin (snapped_angle (transformed_quad scale height w))),
          Float (sin (snapped_angle (transformed_quad scale height w))),
          Float (cos (snapped_angle (transformed_quad scale height w))),
          Float (fst (bottom_left (transformed_quad scale height w))),
          Float (snd (bottom_left (transformed_quad scale height w)))])
       (filter (passes_checks scale height) ws)"
  by (induction ws arbitrary: m) (simp_all add: Tm_word_out)

subsection \<open>The stream for a text that cannot be encoded\<close>

lemma surrogate_incomplete: "\<not> completes (3 / 4, 3 / 4) 100 surrogate_word"
  by (simp add: completes_def encodable_def surrogate_text utf16_code_units_def)

lemma hi_snapped: "snapped_angle (transformed_quad (3 / 4, 3 / 4) 100 hi_word) = 0"
  by (simp add: snapped_angle_def hi_angle ANGLE_THRESHOLD_RAD_def)

lemma hi_stretch: "stretch (3 / 4, 3 / 4) 100 hi_word = 400"
  by (simp add: stretch_def hi_font_size hi_run_width hi_text CHAR_ASPECT_def)

lemma hi_run_head:
  "run_head (3 / 4, 3 / 4) 100 m hi_word =
     [ContentStreamInstruction [] (Operator ''BT''),
      ContentStreamInstruction [Name ''/Span'', Dictionary [(''/MCID'', Integer (int m))]]
        (Operator ''BDC''),
      ContentStreamInstruction [Integer 3] (Operator ''Tr''),
      ContentStreamInstruction
        [Float 1, Float 0, Float 0, Float 1, Float (15 / 2), Float (105 / 2)] (Operator ''Tm''),
      ContentStreamInstruction [Name ''/f-0-0'', Float 15] (Operator ''Tf''),
      ContentStreamInstruction [Float 400] (Operator ''Tz'')]"
  by (simp add: run_head_def hi_snapped hi_stretch hi_origin hi_font_size)

lemma surrogate_geometry:
  "snapped_angle (transformed_quad (3 / 4, 3 / 4) 100 surrogate_word) = 0"
  "bottom_left (transformed_quad (3 / 4, 3 / 4) 100 surrogate_word) = (15 / 2, 30)"
  "quad_font_size (transformed_quad (3 / 4, 3 / 4) 100 surrogate_word) = 15"
  "stretch (3 / 4, 3 / 4) 100 surrogate_word = 800"
  by (simp_all add: surrogate_quad surrogate_text quad_defs atan2_def distance_vertical
        distance_horizontal ANGLE_THRESHOLD_RAD_def CHAR_ASPECT_def)

lemma surrogate_run_head:
  "run_head (3 / 4, 3 / 4) 100 m surrogate_word =
     [ContentStreamInstruction [] (Operator ''BT''),
      ContentStreamInstruction [Name ''/Span'', Dictionary [(''/MCID'', Integer (int m))]]
        (Operator ''BDC''),
      ContentStreamInstruction [Integer 3] (Operator ''Tr''),
      ContentStreamInstruction
        [Float 1, Float 0, Float 0, Float 1, Float (15 / 2), Float 30] (Operator ''Tm''),
      ContentStreamInstruction [Name ''/f-0-0'', Float 15] (Operator ''Tf''),
      ContentStreamInstruction [Float 800] (Operator ''Tz'')]"
  by (simp add: run_head_def surrogate_geometry)

lemma hi_word_out:
  "word_out (3 / 4, 3 / 4) 100 False m hi_word =
     run_head (3 / 4, 3 / 4) 100 m hi_word @ run_tail [0x00, 0x48, 0x00, 0x69]"
  by (simp add: word_out_def hi_passes hi_text utf16_code_units_def big_endian16_def)

lemma surrogate_word_out:
  "word_out (3 / 4, 3 / 4) 100 boxes m surrogate_word =
     run_head (3 / 4, 3 / 4) 100 m surrogate_word"
  by (simp add: word_out_def surrogate_passes surrogate_text utf16_code_units_def)

lemma refused_text_stream:
  "generate_text_content_stream (one_block [surrogate_word, hi_word]) (3 / 4, 3 / 4) 100 False =
     [ContentStreamInstruction [] (Operator ''q''),
      ContentStreamInstruction [] (Operator ''BT''),
      ContentStreamInstruction [Name ''/Span'', Dictionary [(''/MCID'', Integer 0)]]
        (Operator ''BDC''),
      ContentStreamInstruction [Integer 3] (Operator ''Tr''),
      ContentStreamInstruction
        [Float 1, Float 0, Float 0, Float 1, Float (15 / 2), Float 30] (Operator ''Tm''),
      ContentStreamInstruction [Name ''/f-0-0'', Float 15] (Operator ''Tf''),
      ContentStreamInstruction [Float 800] (Operator ''Tz''),
      ContentStreamInstruction [] (Operator ''BT''),
      ContentStreamInstruction [Name ''/Span'', Dictionary [(''/MCID'', Integer 0)]]
        (Operator ''BDC''),
      ContentStreamInstruction [Integer 3] (Operator ''Tr''),
      ContentStreamInstruction
        [Float 1, Float 0, Float 0, Float 1, Float (15 / 2), Float (105 / 2)] (Operator ''Tm''),
      ContentStreamInstruction [Name ''/f-0-0'', Float 15] (Operator ''Tf''),
      ContentStreamInstruction [Float 400] (Operator ''Tz''),
      ContentStreamInstruction [Array [String [0x00, 0x48, 0x00, 0x69]]] (Operator ''TJ''),
      ContentStreamInstruction [] (Operator ''EMC''),
      ContentStreamInstruction [] (Operator ''ET''),
      ContentStreamInstruction [] (Operator ''Q'')]"
  by (simp add: generate_eq words_of_one_block surrogate_word_out hi_word_out
        surrogate_incomplete surrogate_run_head hi_run_head run_tail_def)

subsection \<open>Marked-content ids and bracketing when every text can be encoded\<close>

lemma skipped_word_leaves_state:
  assumes "\<not> passes_checks scale height w"
  shows "word_body scale height boxes (cs, m) w = (cs, m)"
  using assms by (simp add: word_body_eq word_out_def completes_def)

lemma BDC_word_out:
  "operands_of ''BDC'' (word_out scale height boxes m w) =
     (if passes_checks scale height w
      then [[Name ''/Span'', Dictionary [(''/MCID'', Integer (int m))]]] else [])"
  by (simp add: word_out_defs split: sum.splits)

lemma upt_shift: "[m ..< Suc (m + n)] = m # [Suc m ..< Suc (m + n)]"
  by (simp add: upt_conv_Cons del: upt_Suc)

lemma BDC_stream_from:
  assumes "\<forall>w \<in> set ws. passes_checks scale height w \<longrightarrow> encodable (word_text w)"
  shows "operands_of ''BDC'' (stream_from scale height boxes m ws) =
     map (\<lambda>k. [Name ''/Span'', Dictionary [(''/MCID'', Integer (int k))]])
       [m ..< m + length (filter (passes_checks scale height) ws)]"
  using assms
proof (induction ws arbitrary: m)
  case Nil
  then show ?case by simp
next
  case (Cons w ws)
  show ?case
  proof (cases "passes_checks scale height w")
    case True
    with Cons.prems have c: "completes scale height w" by (simp add: completes_def)
    show ?thesis
      using Cons.IH [of "Suc m"] Cons.prems True c
      by (simp add: BDC_word_out upt_shift del: upt_Suc)
  next
    case False
    then have "\<not> completes scale height w" by (simp add: completes_def)
    with False Cons.IH [of m] Cons.prems show ?thesis by (simp add: BDC_word_out)
  qed
qed

lemma mcids_consecutive_when_encodable:
  assumes "\<forall>w \<in> set (words_of ocr_result).
             passes_checks scale height w \<longrightarrow> encodable (word_text w)"
  shows "operands_of ''BDC'' (generate_text_content_stream ocr_result scale height boxes) =
     map (\<lambda>k. [Name ''/Span'', Dictionary [(''/MCID'', Integer (int k))]])
       [0 ..< length (filter (passes_checks scale height) (words_of ocr_result))]"
  using BDC_stream_from [OF assms, of boxes 0]
  by (simp add: generate_eq operands_of_Cons)

lemma bracketed_word_out:
  assumes "passes_checks scale height w \<longrightarrow> encodable (word_text w)"
  shows "bracketed d False 0 (map operator_name (word_out scale height boxes m w) @ rest) =
           bracketed d False 0 rest"
  using assms
  by (auto simp: word_out_def run_head_def run_tail_def debug_box_def Let_def encodable_def
        split: sum.splits)

lemma bracketed_stream_from:
  assumes "\<forall>w \<in> set ws. passes_checks scale height w \<longrightarrow> encodable (word_text w)"
  shows "bracketed d False 0 (map operator_name (stream_from scale height boxes m ws) @ rest) =
           bracketed d False 0 rest"
  using assms
  by (induction ws arbitrary: m) (simp_all add: bracketed_word_out)

lemma well_bracketed_when_encodable:
  assumes "\<forall>w \<in> set (words_of ocr_result).
             passes_checks scale height w \<longrightarrow> encodable (word_text w)"
  shows "well_bracketed (generate_text_content_stream ocr_result scale height boxes)"
  using bracketed_stream_from [OF assms, of 1 boxes 0 "[''Q'']"]
  by (simp add: well_bracketed_def generate_eq)

subsection \<open>The table of glyph indices\<close>

lemma bytes_repeat_Suc: "bytes_repeat bs (Suc n) = bs @ bytes_repeat bs n"
  by (simp add: bytes_repeat_def)

lemma bytes_repeat_length: "length (bytes_repeat [a, b] n) = 2 * n"
  by (induction n) (simp_all add: bytes_repeat_def)

lemma bytes_repeat_nth:
  assumes "c < n"
  shows "bytes_repeat [a, b] n ! (2 * c) = a \<and> bytes_repeat [a, b] n ! (2 * c + 1) = b"
  using assms
proof (induction n arbitrary: c)
  case 0
  then show ?case by simp
next
  case (Suc n)
  show ?case
  proof (cases c)
    case 0
    then show ?thesis by (simp add: bytes_repeat_Suc)
  next
    case (Suc c')
    with Suc.prems have "c' < n" by simp
    from Suc.IH [OF this] show ?thesis
      by (simp add: bytes_repeat_Suc Suc)
  qed
qed

lemma glyph_index_repeat:
  assumes "c < n"
  shows "glyph_index (bytes_repeat [0x00, 0x01] n) c = 1"
  using bytes_repeat_nth [OF assms, of 0 1] by (simp add: glyph_index_def)

lemma font_table:
  "CIDToGIDMap_table (register_glyphlessfont GLYPHLESS_FONT pdf) =
     Some (bytes_repeat [0x00, 0x01] 65536)"
  by (simp add: CIDToGIDMap_table_def register_glyphlessfont_def make_indirect_def
        make_stream_def attr_def stream_data_def Let_def nth_append list_update_append)

subsection \<open>The page assembler on the example image\<close>

lemma open_page:
  "open_image page_env ''page.png'' 1 = Inr (200, 100, 3 / 4, 3 / 4)"
  by (simp add: open_image_def page_env_def page_image_def dict_get_def PDF_POINTS_PER_INCH_def)

lemma pages_set_attr: "pages (set_attr pdf r key v) = pages pdf"
  by (cases r) (simp_all split: object.splits)

lemma pages_make_indirect: "pages (fst (make_indirect pdf obj)) = pages pdf"
  by (simp add: make_indirect_def)

lemma pages_make_stream: "pages (fst (make_stream pdf data)) = pages pdf"
  by (simp add: make_stream_def)

lemma register_pages:
  "pages (fst (register_glyphlessfont F pdf)) = pages pdf"
  unfolding register_glyphlessfont_def Let_def split_beta
  by (simp only: fst_conv pages_set_attr pages_make_indirect pages_make_stream)

lemma end_to_end:
  "snd (paddleocr_to_pdf page_env F (\<lambda>cs. Inr []) ''page.png'' 1 (one_block [hi_word])
          ''out.pdf'' True) = Inr ''out.pdf''
   \<and> map_option (\<lambda>pdf. map page_size (pages pdf))
        (fst (paddleocr_to_pdf page_env F (\<lambda>cs. Inr []) ''page.png'' 1 (one_block [hi_word])
          ''out.pdf'' True)) = Some [(150, 75)]"
proof -
  have f: "files page_env ''page.png'' \<noteq> None" and w: "writable page_env ''out.pdf''"
    by (simp_all add: page_env_def)
  show ?thesis
    unfolding paddleocr_to_pdf_def Let_def split_beta
    using f w
    by (simp add: open_page register_pages pages_make_stream Pdf_new_def add_blank_page_def)
qed

subsection \<open>Words that differ in scores only\<close>

lemma same_but_score_word_out:
  assumes "same_but_score_word w w'"
  shows "word_out scale height boxes m w = word_out scale height boxes m w'"
    and "completes scale height w = completes scale height w'"
proof -
  have t: "word_text w = word_text w'" and b: "word_bbox w = word_bbox w'"
    using assms by (simp_all add: same_but_score_word_def word_text_def word_bbox_def)
  have q: "transformed_quad scale height w = transformed_quad scale height w'"
    by (simp add: transformed_quad_def b)
  have p: "passes_checks scale height w = passes_checks scale height w'"
    by (simp add: passes_checks_def t b q)
  show "completes scale height w = completes scale height w'"
    by (simp add: completes_def p t)
  have rh: "run_head scale height m w = run_head scale height m w'"
    by (simp add: run_head_def stretch_def t q)
  have db: "debug_box scale height w = debug_box scale height w'"
    by (simp add: debug_box_def q)
  show "word_out scale height boxes m w = word_out scale height boxes m w'"
    unfolding word_out_def p t rh db by (rule refl)
qed

lemma same_but_score_stream_from:
  assumes "list_all2 same_but_score_word ws ws'"
  shows "stream_from scale height boxes m ws = stream_from scale height boxes m ws'"
  using assms
proof (induction ws ws' arbitrary: m rule: list_all2_induct)
  case Nil
  then show ?case by simp
next
  case (Cons w ws w' ws')
  then show ?case
    by (simp add: same_but_score_word_out [of w w'])
qed

lemma list_all2_concat:
  assumes "list_all2 (list_all2 P) xss yss"
  shows "list_all2 P (concat xss) (concat yss)"
  using assms by (induction xss yss rule: list_all2_induct) (simp_all add: list_all2_appendI)

lemma same_but_score_words_of:
  assumes "same_but_score r r'"
  shows "list_all2 same_but_score_word (words_of r) (words_of r')"
proof (cases r)
  case None
  with assms show ?thesis by (cases r') (simp_all add: same_but_score_def words_of_def)
next
  case (Some a)
  with assms obtain a' where r': "r' = Some a'"
    and bl: "list_all2 same_but_score_block (blocks a) (blocks a')"
    by (cases r') (simp_all add: same_but_score_def)
  from bl have "list_all2 (\<lambda>x y. list_all2 same_but_score_word (ocr_words x) (ocr_words y))
      (blocks a) (blocks a')"
    by (rule list_all2_mono) (simp add: same_but_score_block_def)
  then have "list_all2 (list_all2 same_but_score_word)
      (map ocr_words (blocks a)) (map ocr_words (blocks a'))"
    by (simp add: list_all2_map1 list_all2_map2)
  then show ?thesis
    by (simp add: Some r' words_of_def list_all2_concat)
qed

subsection \<open>Encoding and decoding\<close>

lemma unat_byte: "n < 256 \<Longrightarrow> unat (of_nat n :: byte) = n"
  by (simp add: unat_of_nat)

lemma code_units_big_endian16:
  assumes "u < 65536"
  shows "code_units_of_bytes (big_endian16 u @ bs) = map_option ((#) u) (code_units_of_bytes bs)"
proof -
  have "u div 256 < 256" using assms by simp
  then have "unat (of_nat (u div 256) :: byte) = u div 256" by (rule unat_byte)
  moreover have "unat (of_nat (u mod 256) :: byte) = u mod 256" by (rule unat_byte) simp
  ultimately show ?thesis by (simp add: big_endian16_def)
qed

lemma code_units_concat:
  assumes "\<forall>u \<in> set us. u < 65536" and "code_units_of_bytes bs = Some vs"
  shows "code_units_of_bytes (concat (map big_endian16 us) @ bs) = Some (us @ vs)"
  using assms by (induction us) (simp_all add: code_units_big_endian16)

lemma utf16_code_units_bound:
  assumes "utf16_code_units c = Inr us"
  shows "\<forall>u \<in> set us. u < 65536"
  using assms by (auto simp: utf16_code_units_def split: if_splits)

lemma code_points_utf16_code_units:
  assumes "utf16_code_units c = Inr us"
  shows "code_points_of_units (us @ vs) = map_option ((#) c) (code_points_of_units vs)"
proof (cases "c < 0x10000")
  case True
  with assms show ?thesis
    by (auto simp: utf16_code_units_def split: if_splits)
next
  case False
  with assms have c: "0x10000 \<le> c" "c < 0x110000"
    and us: "us = [0xD800 + (c - 0x10000) div 0x400, 0xDC00 + (c - 0x10000) mod 0x400]"
    by (auto simp: utf16_code_units_def split: if_splits)
  define d where "d = c - 0x10000"
  have d: "d < 0x100000" "c = 0x10000 + d" using c by (simp_all add: d_def)
  have hi: "d div 0x400 < 0x400" using d by simp
  have lo: "d mod 0x400 < 0x400" by simp
  have recombine: "d div 0x400 * 0x400 + d mod 0x400 = d" by simp
  show ?thesis
    unfolding us d_def [symmetric] using hi lo recombine d(2) by (simp add: add.commute)
qed

lemma decode_encode_split:
  assumes "encode_utf16be t = Inr bs"
  shows "\<exists>us. code_units_of_bytes bs = Some us \<and> code_points_of_units us = Some t"
  using assms
proof (induction t arbitrary: bs)
  case Nil
  then show ?case by simp
next
  case (Cons c cs)
  from Cons.prems obtain us1 bs' where
    u: "utf16_code_units c = Inr us1" and e: "encode_utf16be cs = Inr bs'"
    and bs: "bs = concat (map big_endian16 us1) @ bs'"
    by (auto split: sum.splits)
  from Cons.IH [OF e] obtain us' where
    1: "code_units_of_bytes bs' = Some us'" and 2: "code_points_of_units us' = Some cs"
    by blast
  have "code_units_of_bytes bs = Some (us1 @ us')"
    unfolding bs by (rule code_units_concat [OF utf16_code_units_bound [OF u] 1])
  moreover have "code_points_of_units (us1 @ us') = Some (c # cs)"
    by (simp add: code_points_utf16_code_units [OF u] 2)
  ultimately show ?case by blast
qed

lemma decode_encode:
  "encode_utf16be t = Inr bs \<Longrightarrow> decode_utf16be bs = Some t"
  using decode_encode_split [of t bs] by (auto simp: decode_utf16be_def)

lemma TJ_strings_append [simp]: "TJ_strings (xs @ ys) = TJ_strings xs @ TJ_strings ys"
  by (simp add: TJ_strings_def)

lemma TJ_strings_Nil [simp]: "TJ_strings [] = []"
  by (simp add: TJ_strings_def)

lemma TJ_strings_word_out:
  "map Inr (TJ_strings (word_out scale height boxes m w)) =
     (if completes scale height w then [encode_utf16be (word_text w)] else [])"
  by (simp add: TJ_strings_def word_out_defs completes_def encodable_def split: sum.splits)

lemma TJ_strings_stream_from:
  "map Inr (TJ_strings (stream_from scale height boxes m ws)) =
     map (\<lambda>w. encode_utf16be (word_text w)) (filter (completes scale height) ws)"
  by (induction ws arbitrary: m) (simp_all add: TJ_strings_word_out)

lemma TJ_strings_generate:
  "map Inr (TJ_strings (generate_text_content_stream ocr_result scale height boxes)) =
     map (\<lambda>w. encode_utf16be (word_text w)) (filter (completes scale height) (words_of ocr_result))"
  using TJ_strings_stream_from [of scale height boxes 0 "words_of ocr_result"]
  by (simp add: generate_eq TJ_strings_def operands_of_Cons)

lemma those_map_Some: "those (map (Some \<circ> f) xs) = Some (map f xs)"
  by (induction xs) simp_all

lemma decode_encoded_list:
  assumes "map Inr bss = map (\<lambda>w. encode_utf16be (word_text w)) ws"
  shows "map decode_utf16be bss = map Some (map word_text ws)"
  using assms
proof (induction bss arbitrary: ws)
  case Nil
  then show ?case by simp
next
  case (Cons bs bss)
  then obtain w ws' where ws: "ws = w # ws'" by (cases ws) auto
  with Cons.prems have "encode_utf16be (word_text w) = Inr bs"
    and "map Inr bss = map (\<lambda>w. encode_utf16be (word_text w)) ws'"
    by simp_all
  then show ?case
    using Cons.IH [of ws'] by (simp add: ws decode_encode)
qed

text \<open>
  C1. For every OCR result, the byte strings of the \<open>TJ\<close> instructions are, in emission
  order, the UTF-16BE encodings of the texts of the words that complete their run
  (blocks in block order, words in each block's order); decoding them as UTF-16BE and
  concatenating the results gives exactly the concatenation of those texts, with nothing
  in between. The words left out are those that fail a check of the loop body and those
  whose text the encoder refuses.
\<close>

theorem TJ_transcript:
  "map Inr (TJ_strings (generate_text_content_stream ocr_result scale height boxes)) =
     map (\<lambda>w. encode_utf16be (word_text w))
       (filter (completes scale height) (words_of ocr_result))
   \<and> decode_all (TJ_strings (generate_text_content_stream ocr_result scale height boxes)) =
       Some (concat (map word_text (filter (completes scale height) (words_of ocr_result))))"
  using decode_encoded_list [OF TJ_strings_generate, of ocr_result scale height boxes]
  by (simp add: TJ_strings_generate decode_all_def those_map_Some)

theorem TJ_transcript_witness:
  "map Inr (TJ_strings (generate_text_content_stream
       (one_block [hi_word, short_bbox_word, surrogate_word, hi_word]) (3 / 4, 3 / 4) 100 True)) =
     [Inr [0x00, 0x48, 0x00, 0x69] :: exn + bytes, Inr [0x00, 0x48, 0x00, 0x69]]
   \<and> decode_all (TJ_strings (generate_text_content_stream
       (one_block [hi_word, short_bbox_word, surrogate_word, hi_word]) (3 / 4, 3 / 4) 100 True)) =
       Some [0x48, 0x69, 0x48, 0x69]"
  using TJ_transcript
    [of "one_block [hi_word, short_bbox_word, surrogate_word, hi_word]" "(3 / 4, 3 / 4)" 100 True]
  by (simp add: words_of_one_block hi_completes short_bbox_incomplete surrogate_incomplete
        hi_text utf16_code_units_def big_endian16_def)

text \<open>
  C7. For a pixel bbox \<open>[x1, y1, x2, y2]\<close> and a positive scale pair, the quad obtained
  by \<open>bbox_to_poly\<close>, \<open>poly_to_quad\<close> and \<open>pt_from_pixel\<close>, mapped back corner by corner
  through \<open>x / scale_x\<close> and \<open>height - y / scale_y\<close>, is exactly the four corners of the
  bbox (top-left, top-right, bottom-right, bottom-left), over exact arithmetic. The
  orderings \<open>x2 > x1\<close>, \<open>y2 > y1\<close> and the sign of the height are not needed.
\<close>

theorem coordinate_round_trip:
  assumes "0 < sx" and "0 < sy"
  shows "case bbox_to_poly [x1, y1, x2, y2] of
           Inl e \<Rightarrow> False
         | Inr poly \<Rightarrow>
             pixel_from_pt (pt_from_pixel (poly_to_quad poly) (sx, sy) h) (sx, sy) h
               = [x1, y1, x2, y1, x2, y2, x1, y2]"
  using assms by (simp add: poly_to_quad_def pt_from_pixel_quad pixel_from_pt_def)

theorem coordinate_round_trip_witness:
  "(0::real) < 3 / 4 \<and> (0::real) < 3 / 4 \<and>
   (case bbox_to_poly [10, 10, 90, 30] of
      Inl e \<Rightarrow> False
    | Inr poly \<Rightarrow>
        pixel_from_pt (pt_from_pixel (poly_to_quad poly) (3 / 4, 3 / 4) 100) (3 / 4, 3 / 4) 100
          = [10, 10, 90, 10, 90, 30, 10, 30])"
  using coordinate_round_trip
    [where sx = "3 / 4" and sy = "3 / 4" and ?x1.0 = 10 and ?y1.0 = 10 and ?x2.0 = 90
       and ?y2.0 = 30 and h = 100]
  by simp

text \<open>
  C4. The \<open>Tm\<close> instructions of the stream correspond, in order, to the words that pass
  the checks, and for each such word whose quad has a rotation angle of absolute value
  below 0.01 radians the operands are exactly \<open>(1, 0, 0, 1, x, y)\<close>, with \<open>(x, y)\<close> the
  bottom-left corner of the quad: the angle has been snapped to 0.
\<close>

theorem angle_snap:
  "list_all2
     (\<lambda>w tm. \<bar>quad_angle (transformed_quad scale height w)\<bar> < ANGLE_THRESHOLD_RAD \<longrightarrow>
        tm = [Float 1, Float 0, Float 0, Float 1,
              Float (fst (bottom_left (transformed_quad scale height w))),
              Float (snd (bottom_left (transformed_quad scale height w)))])
     (filter (passes_checks scale height) (words_of ocr_result))
     (operands_of ''Tm'' (generate_text_content_stream ocr_result scale height boxes))"
  by (simp add: generate_eq operands_of_Cons Tm_stream_from list_all2_map2 list_all2_same
        snapped_angle_def)

theorem angle_snap_witness:
  "\<bar>quad_angle (transformed_quad (3 / 4, 3 / 4) 100 hi_word)\<bar> < ANGLE_THRESHOLD_RAD
   \<and> operands_of ''Tm''
        (generate_text_content_stream (one_block [hi_word]) (3 / 4, 3 / 4) 100 False) =
       [[Float 1, Float 0, Float 0, Float 1, Float (15 / 2), Float (105 / 2)]]"
  using angle_snap [of "(3 / 4, 3 / 4)" 100 "one_block [hi_word]" False]
  by (simp add: words_of_one_block hi_passes hi_angle ANGLE_THRESHOLD_RAD_def hi_origin
        list_all2_Cons1)

text \<open>
  C5. The \<open>Tz\<close> instructions of the stream correspond, in order, to the words that pass
  the checks, and the operand for a word is
  \<open>100 * run_width / character_count / font_size * CHAR_ASPECT\<close>, with \<open>run_width\<close> the
  distance between the bottom-right and bottom-left corners of the transformed quad,
  \<open>font_size\<close> the distance between its top-left and bottom-left corners,
  \<open>character_count\<close> the length of the text, and \<open>CHAR_ASPECT = 2\<close>.
\<close>

theorem stretch_formula:
  "operands_of ''Tz'' (generate_text_content_stream ocr_result scale height boxes) =
     map (\<lambda>w. [Float (100 * distance (bottom_right (transformed_quad scale height w))
                              (bottom_left (transformed_quad scale height w))
                     / real (length (word_text w))
                     / distance (top_left (transformed_quad scale height w))
                              (bottom_left (transformed_quad scale height w))
                     * real_of_int CHAR_ASPECT)])
       (filter (passes_checks scale height) (words_of ocr_result))
   \<and> CHAR_ASPECT = 2"
  by (simp add: generate_eq operands_of_Cons Tz_stream_from stretch_def quad_run_width_def
        quad_font_size_def CHAR_ASPECT_def)

theorem stretch_formula_witness:
  "operands_of ''Tz'' (generate_text_content_stream (one_block [hi_word]) (3 / 4, 3 / 4) 100 False)
     = [[Float 400]]"
  using stretch_formula [of "one_block [hi_word]" "(3 / 4, 3 / 4)" 100 False]
    hi_font_size hi_run_width
  by (simp add: words_of_one_block hi_passes hi_text quad_font_size_def quad_run_width_def)

text \<open>
  C6. When the OCR result is missing or has no blocks, the stream is exactly \<open>q\<close>
  followed by \<open>Q\<close>: no \<open>BT\<close>, one \<open>q\<close>/\<open>Q\<close> pair, and no failure.
\<close>

theorem blank_page:
  assumes "ocr_result = None \<or> (\<exists>r. ocr_result = Some r \<and> blocks r = [])"
  shows "generate_text_content_stream ocr_result scale height boxes =
           [ContentStreamInstruction [] (Operator ''q''),
            ContentStreamInstruction [] (Operator ''Q'')]"
  using assms
  by (auto simp: generate_text_content_stream_def cs_init_def cs_q_def cs_Q_def cs_build_def)

theorem blank_page_witness:
  "generate_text_content_stream None (3 / 4, 3 / 4) 100 True =
     [ContentStreamInstruction [] (Operator ''q''), ContentStreamInstruction [] (Operator ''Q'')]
   \<and> generate_text_content_stream (Some \<lparr>blocks = []\<rparr>) (3 / 4, 3 / 4) 100 True =
     [ContentStreamInstruction [] (Operator ''q''), ContentStreamInstruction [] (Operator ''Q'')]"
  using blank_page [of None "(3 / 4, 3 / 4)" 100 True]
    blank_page [of "Some \<lparr>blocks = []\<rparr>" "(3 / 4, 3 / 4)" 100 True]
  by simp

text \<open>
  C10. Two OCR results that are the same except for the score fields of their words
  give the same instruction sequence, for every scale, height and boxes flag; and
  whether a word completes its run does not change when its score is replaced.
\<close>

theorem score_irrelevant:
  assumes "same_but_score ocr_result ocr_result'"
  shows "generate_text_content_stream ocr_result scale height boxes =
           generate_text_content_stream ocr_result' scale height boxes
         \<and> completes scale height (w\<lparr>w_score := s\<rparr>) = completes scale height w"
  by (simp add: generate_eq
        same_but_score_stream_from [OF same_but_score_words_of [OF assms]]
        same_but_score_word_out(2) [of "w\<lparr>w_score := s\<rparr>" w] same_but_score_word_def)

theorem score_irrelevant_witness:
  "same_but_score (one_block [hi_word]) (one_block [hi_word\<lparr>w_score := Some 0\<rparr>])
   \<and> generate_text_content_stream (one_block [hi_word]) (3 / 4, 3 / 4) 100 True =
       generate_text_content_stream (one_block [hi_word\<lparr>w_score := Some 0\<rparr>])
         (3 / 4, 3 / 4) 100 True
   \<and> completes (3 / 4, 3 / 4) 100 (hi_word\<lparr>w_score := Some 0\<rparr>)"
proof -
  have h: "same_but_score (one_block [hi_word]) (one_block [hi_word\<lparr>w_score := Some 0\<rparr>])"
    by (simp add: same_but_score_def one_block_def same_but_score_block_def
          same_but_score_word_def)
  show ?thesis
    using h score_irrelevant
        [OF h, where scale = "(3 / 4, 3 / 4)" and height = 100 and boxes = True
           and w = hi_word and s = "Some 0"]
    by (simp add: hi_completes)
qed

text \<open>
  C2. The marked-content ids are not always \<open>0, 1, 2, ...\<close>: for a block of two words,
  the first with the lone surrogate \<open>U+D800\<close> as text and the second \<open>Hi\<close>, both with
  valid boxes, the stream has two \<open>BDC\<close> instructions with id 0 and a single \<open>ET\<close>. The
  first word passes the checks, its \<open>BT\<close> and \<open>BDC\<close> are appended, the encoding in \<open>TJ\<close>
  raises, and the counter is not advanced. (A word that fails a check leaves builder and
  counter as they are, \<open>skipped_word_leaves_state\<close>, and the ids are consecutive when
  every text can be encoded, \<open>mcids_consecutive_when_encodable\<close>.)
\<close>

theorem refused_text_repeats_mcid:
  "operands_of ''BDC''
     (generate_text_content_stream (one_block [surrogate_word, hi_word]) (3 / 4, 3 / 4) 100 False)
   = [[Name ''/Span'', Dictionary [(''/MCID'', Integer 0)]],
      [Name ''/Span'', Dictionary [(''/MCID'', Integer 0)]]]
   \<and> operands_of ''ET''
     (generate_text_content_stream (one_block [surrogate_word, hi_word]) (3 / 4, 3 / 4) 100 False)
   = [[]]"
  by (simp add: refused_text_stream operands_of_Cons)

text \<open>
  C9. The stream is not always well-bracketed: for a single word with a valid box and
  the lone surrogate \<open>U+D800\<close> as text it is \<open>q BT BDC Tr Tm Tf Tz Q\<close>, with neither \<open>EMC\<close>
  nor \<open>ET\<close>. (It is well-bracketed when every text can be encoded,
  \<open>well_bracketed_when_encodable\<close>.)
\<close>

theorem refused_text_leaves_text_object_open:
  "\<not> well_bracketed
     (generate_text_content_stream (one_block [surrogate_word]) (3 / 4, 3 / 4) 100 False)
   \<and> map operator_name
     (generate_text_content_stream (one_block [surrogate_word]) (3 / 4, 3 / 4) 100 False)
     = [''q'', ''BT'', ''BDC'', ''Tr'', ''Tm'', ''Tf'', ''Tz'', ''Q'']"
  by (simp add: generate_eq words_of_one_block surrogate_word_out surrogate_run_head
        well_bracketed_def)

text \<open>
  C3. The \<open>CIDToGIDMap\<close> stream of the font built by \<open>register_glyphlessfont\<close> is a
  table of 65536 two-byte entries, each \<open>0x0001\<close>: every CID of the 16-bit space maps to
  glyph 1, whatever its own number.
\<close>

theorem cid_map_constant:
  "CIDToGIDMap_table (register_glyphlessfont GLYPHLESS_FONT pdf) =
     Some (bytes_repeat [0x00, 0x01] 65536)
   \<and> length (bytes_repeat [0x00, 0x01] 65536) = 2 * 65536
   \<and> (\<forall>c < 65536. glyph_index (bytes_repeat [0x00, 0x01] 65536) c = 1)"
  by (simp add: font_table bytes_repeat_length glyph_index_repeat)

theorem cid_map_constant_witness:
  "(7::nat) < 65536
   \<and> CIDToGIDMap_table (register_glyphlessfont [] Pdf_new) = Some (bytes_repeat [0x00, 0x01] 65536)
   \<and> glyph_index (bytes_repeat [0x00, 0x01] 65536) 7 = 1"
  using cid_map_constant [of "[]" Pdf_new] by simp

text \<open>
  C3, the identity reading: the table does not map CID 2 to glyph 2, so it is not the
  identity map.
\<close>

theorem cid_map_not_identity:
  "CIDToGIDMap_table (register_glyphlessfont [] Pdf_new) = Some (bytes_repeat [0x00, 0x01] 65536)
   \<and> glyph_index (bytes_repeat [0x00, 0x01] 65536) 2 \<noteq> 2"
  by (simp add: font_table glyph_index_repeat)

text \<open>
  C8. When the image file is missing, or \<open>image_scale\<close> is not positive, or the image has
  a non-positive width or height, \<open>paddleocr_to_pdf\<close> raises ValueError with no document
  allocated; whenever it raises ValueError no document has been allocated; and whether it
  raises ValueError does not depend on the OCR result or the boxes flag.
\<close>

theorem input_errors_before_allocation:
  "(files env image_filename = None \<or> image_scale \<le> 0
      \<or> (\<exists>im. files env image_filename = Some (ImageFile im)
            \<and> (im_width im \<le> 0 \<or> im_height im \<le> 0))
    \<longrightarrow> paddleocr_to_pdf env GLYPHLESS_FONT unparse image_filename image_scale ocr_result
          output_pdf boxes = (None, Inl ValueError))
   \<and> (snd (paddleocr_to_pdf env GLYPHLESS_FONT unparse image_filename image_scale ocr_result
          output_pdf boxes) = Inl ValueError
        \<longrightarrow> fst (paddleocr_to_pdf env GLYPHLESS_FONT unparse image_filename image_scale
              ocr_result output_pdf boxes) = None)
   \<and> (snd (paddleocr_to_pdf env GLYPHLESS_FONT unparse image_filename image_scale ocr_result
          output_pdf boxes) = Inl ValueError)
      = (snd (paddleocr_to_pdf env GLYPHLESS_FONT unparse image_filename image_scale ocr_result'
          output_pdf boxes') = Inl ValueError)"
  by (auto simp: paddleocr_to_pdf_def open_image_def Let_def
        split: sum.splits prod.splits option.splits stored_file.splits if_splits)

theorem input_errors_before_allocation_witness:
  "paddleocr_to_pdf \<lparr>files = (\<lambda>name. None), writable = (\<lambda>name. True)\<rparr> []
       (\<lambda>cs. Inr []) ''page.png'' 1 (one_block [hi_word]) ''out.pdf'' True
     = (None, Inl ValueError)
   \<and> paddleocr_to_pdf
       \<lparr>files = (\<lambda>name. Some (ImageFile \<lparr>info_dpi = Some (96, 96), im_width = 200,
                                          im_height = 100\<rparr>)),
        writable = (\<lambda>name. True)\<rparr> []
       (\<lambda>cs. Inr []) ''page.png'' 0 (one_block [hi_word]) ''out.pdf'' True
     = (None, Inl ValueError)
   \<and> paddleocr_to_pdf
       \<lparr>files = (\<lambda>name. Some (ImageFile \<lparr>info_dpi = Some (96, 96), im_width = 0,
                                          im_height = 100\<rparr>)),
        writable = (\<lambda>name. True)\<rparr> []
       (\<lambda>cs. Inr []) ''page.png'' 1 (one_block [hi_word]) ''out.pdf'' True
     = (None, Inl ValueError)"
  using
    input_errors_before_allocation
      [where env = "\<lparr>files = (\<lambda>name. None), writable = (\<lambda>name. True)\<rparr>"
         and GLYPHLESS_FONT = "[]" and unparse = "\<lambda>cs. Inr []" and image_filename = "''page.png''"
         and image_scale = 1 and ocr_result = "one_block [hi_word]" and output_pdf = "''out.pdf''"
         and boxes = True, THEN conjunct1]
    input_errors_before_allocation
      [where env = "\<lparr>files = (\<lambda>name. Some (ImageFile \<lparr>info_dpi = Some (96, 96),
                     im_width = 200, im_height = 100\<rparr>)), writable = (\<lambda>name. True)\<rparr>"
         and GLYPHLESS_FONT = "[]" and unparse = "\<lambda>cs. Inr []" and image_filename = "''page.png''"
         and image_scale = 0 and ocr_result = "one_block [hi_word]" and output_pdf = "''out.pdf''"
         and boxes = True, THEN conjunct1]
    input_errors_before_allocation
      [where env = "\<lparr>files = (\<lambda>name. Some (ImageFile \<lparr>info_dpi = Some (96, 96),
                     im_width = 0, im_height = 100\<rparr>)), writable = (\<lambda>name. True)\<rparr>"
         and GLYPHLESS_FONT = "[]" and unparse = "\<lambda>cs. Inr []" and image_filename = "''page.png''"
         and image_scale = 1 and ocr_result = "one_block [hi_word]" and output_pdf = "''out.pdf''"
         and boxes = True, THEN conjunct1]
  by simp

end
